theory Spec2Isabelle
  imports Complex_Main
begin

section \<open>The drift arcade game: values, configuration and entities\<close>

text \<open>
  The game is JavaScript (ES modules, hence strict mode). Its module-level variables
  (\<^verbatim>\<open>points\<close>, \<^verbatim>\<open>level\<close>, \<^verbatim>\<open>physicsObjects\<close>, \<^verbatim>\<open>coins\<close>, \<^verbatim>\<open>obstacleBoxes\<close>, \<^verbatim>\<open>coinSpawnTimer\<close>,
  \<^verbatim>\<open>restartKeyListener\<close>), the mutable flags \<^verbatim>\<open>CONFIG.game.isOver\<close> and
  \<^verbatim>\<open>CONFIG.game.isFalling\<close>, and the parts of the browser, the scene graph and the
  physics world that the game logic reads back are one record that every function
  takes and returns. JavaScript numbers are modelled exactly: counters as \<open>int\<close>,
  coordinates, speeds and forces as \<open>real\<close>; the one operation whose IEEE result is
  not a real number, division by zero, has its own result type.
\<close>

type_synonym vec3 = "real \<times> real \<times> real"

datatype js_error = TypeError

text \<open>
  An argument as a callee receives it: a missing argument is \<^verbatim>\<open>undefined\<close>, a number
  is a primitive, \<open>JObject\<close> is an ordinary extensible object, and \<open>JFrozen\<close> an object to
  which no property can be added, as the physics engine's module export is. In module
  (strict) code an assignment that would create a property throws a TypeError unless
  the target is an extensible object; reading a property, and calling what was read,
  needs an object.
\<close>

datatype jsval = JUndefined | JNumber int | JObject | JFrozen

fun can_set :: "jsval \<Rightarrow> bool" where
  "can_set JObject = True"
| "can_set _ = False"

fun can_read :: "jsval \<Rightarrow> bool" where
  "can_read JObject = True"
| "can_read JFrozen = True"
| "can_read _ = False"

text \<open>The \<^verbatim>\<open>type\<close> tag of a registry entry: 'car', 'ground', 'obstacle', 'coin'.\<close>

datatype etype = Car | Ground | Obstacle | Coin

text \<open>
  The object literals pushed on \<^verbatim>\<open>physicsObjects\<close>, \<^verbatim>\<open>obstacleBoxes\<close> and \<^verbatim>\<open>coins\<close>.
  A property the literal does not have is \<open>None\<close> (\<^verbatim>\<open>undefined\<close>). Meshes, bodies and
  colliders are the handles of the rendering library and of the physics engine.
\<close>

record entity =
  etype :: "etype option"
  mesh :: nat
  body :: nat
  collider :: "nat option"
  sensor :: "nat option"
  collected :: "bool option"

text \<open>The tunables of \<^verbatim>\<open>CONFIG.car\<close> and \<^verbatim>\<open>CONFIG.physics\<close> that the force routine reads.\<close>

record tunables =
  maxSpeed :: real
  engineForceMagnitude :: real
  reverseForceMagnitude :: real
  steeringFactor :: real
  handbrakeDamping :: real
  minDampening :: real
  maxDampening :: real
  rollingResistance :: real

definition CONFIG :: tunables where
  "CONFIG = \<lparr> maxSpeed = 25, engineForceMagnitude = 6, reverseForceMagnitude = - 4,
      steeringFactor = 2 / 10, handbrakeDamping = 5 / 10, minDampening = 5 / 10,
      maxDampening = 15 / 10, rollingResistance = 15 / 1000 \<rparr>"

text \<open>\<^verbatim>\<open>CONFIG.coins.value\<close>, \<^verbatim>\<open>CONFIG.level.*\<close> and \<^verbatim>\<open>CONFIG.environment.groundSize\<close>.\<close>

definition coins_value :: int where "coins_value = 10"
definition pointsToAdvance :: int where "pointsToAdvance = 100"
definition boxIncreasePerLevel :: int where "boxIncreasePerLevel = 10"
definition maxLevel :: int where "maxLevel = 10"
definition coinBaseCount :: int where "coinBaseCount = 10"
definition groundSize :: real where "groundSize = 100"

section \<open>physics.js: the level-scaled speed cap\<close>

definition getCarMaxSpeed :: "tunables \<Rightarrow> int \<Rightarrow> real" where
  "getCarMaxSpeed cfg lvl =
     (let base = 1; step = 25 / 100; cap = 2;
          multiplier = min (base + (real_of_int lvl - 1) * step) cap
      in maxSpeed cfg * multiplier)"


text \<open>
  The result of a JavaScript division whose divisor may be zero, and the arithmetic
  of a finite number with such a result (IEEE 754: \<open>0/0\<close> is NaN, \<open>x/0\<close> is an infinity,
  \<open>0 * \<infinity>\<close> is NaN, \<^verbatim>\<open>Math.min\<close> of NaN is NaN). The divisors here are a \<^verbatim>\<open>Math.sqrt\<close>
  result and the base speed of the tuning panel (0 to 50), so a zero is \<open>+0\<close>.
\<close>

datatype jsnum = Fin real | PosInf | NegInf | NaN

definition js_div :: "real \<Rightarrow> real \<Rightarrow> jsnum" where
  "js_div x y =
     (if y \<noteq> 0 then Fin (x / y)
      else if x = 0 then NaN else if 0 < x then PosInf else NegInf)"

fun js_times :: "real \<Rightarrow> jsnum \<Rightarrow> jsnum" where
  "js_times c (Fin r) = Fin (c * r)"
| "js_times c NaN = NaN"
| "js_times c PosInf = (if c = 0 then NaN else if 0 < c then PosInf else NegInf)"
| "js_times c NegInf = (if c = 0 then NaN else if 0 < c then NegInf else PosInf)"

fun js_plus :: "real \<Rightarrow> jsnum \<Rightarrow> jsnum" where
  "js_plus c (Fin r) = Fin (c + r)"
| "js_plus c q = q"

fun js_neg :: "jsnum \<Rightarrow> jsnum" where
  "js_neg (Fin r) = Fin (- r)"
| "js_neg PosInf = NegInf"
| "js_neg NegInf = PosInf"
| "js_neg NaN = NaN"

fun js_min :: "jsnum \<Rightarrow> real \<Rightarrow> jsnum" where
  "js_min (Fin r) c = Fin (min r c)"
| "js_min PosInf c = Fin c"
| "js_min NegInf c = NegInf"
| "js_min NaN c = NaN"

fun finite_num :: "jsnum \<Rightarrow> bool" where
  "finite_num (Fin r) = True"
| "finite_num _ = False"

definition getDampingFactor :: "tunables \<Rightarrow> real \<Rightarrow> jsnum" where
  "getDampingFactor cfg speed =
     (let minDamp = minDampening cfg; maxDamp = maxDampening cfg;
          t = js_min (js_div speed (maxSpeed cfg)) 1
      in js_plus minDamp (js_times (maxDamp - minDamp) t))"

text \<open>The calls the force routine makes on the car's rigid body, in order.\<close>

datatype body_call =
    AddForce jsnum jsnum jsnum
  | SetLinvel real real real
  | ResetForces
  | ApplyTorqueImpulse real real real
  | ApplyImpulse jsnum jsnum jsnum

record controls =
  forward :: bool
  reverse :: bool
  left :: bool
  right :: bool
  handbrake :: bool

text \<open>
  \<^verbatim>\<open>updateCarPhysics(carBody, carMesh, level, controls, tireTracksSystem)\<close>. The body's
  linear velocity and the vector \<open>(0,0,-1)\<close> rotated by the body's rotation (computed by
  the rendering library) are read from the engine and enter as arguments; the result
  is the list of calls made on the body. The tire-track bookkeeping is cosmetic and
  left out.
\<close>

definition updateCarPhysics ::
  "tunables \<Rightarrow> bool \<Rightarrow> bool \<Rightarrow> bool \<Rightarrow> int \<Rightarrow> controls \<Rightarrow> vec3 \<Rightarrow> vec3 \<Rightarrow> body_call list" where
  "updateCarPhysics cfg hasBody over falling lvl ctl linVel forwardDir =
     (if \<not> hasBody \<or> (over \<and> \<not> falling) then []
      else
        let vx = fst linVel; vz = snd (snd linVel);
            fx = fst forwardDir; fy = fst (snd forwardDir); fz = snd (snd forwardDir);
            absVel = sqrt (vx * vx + 0 * 0 + vz * vz);
            maxSp = getCarMaxSpeed cfg lvl;
            speed = sqrt (vx * vx + vz * vz);
            handbrakeForce = (- handbrakeDamping cfg) * (2 / 10);
            braking =
              (if handbrake ctl
               then AddForce (js_times handbrakeForce (js_div vx speed)) (Fin 0)
                             (js_times handbrakeForce (js_div vz speed))
                    # (if absVel < 2 / 10 then [SetLinvel 0 0 0] else [])
               else []);
            force =
              (if handbrake ctl then (0, 0, 0)
               else if forward ctl \<and> absVel < maxSp
                 then (fx * engineForceMagnitude cfg, fy * engineForceMagnitude cfg,
                       fz * engineForceMagnitude cfg)
               else if reverse ctl \<and> absVel < maxSp
                 then (fx * reverseForceMagnitude cfg, fy * reverseForceMagnitude cfg,
                       fz * reverseForceMagnitude cfg)
               else (0, 0, 0));
            gx = fst force; gy = fst (snd force); gz = snd (snd force);
            driving =
              (if sqrt (gx * gx + gy * gy + gz * gz) > 0
               then [AddForce (Fin (gx * (1 - rollingResistance cfg)))
                              (Fin (gy * (1 - rollingResistance cfg)))
                              (Fin (gz * (1 - rollingResistance cfg)))]
               else [ResetForces]);
            steer = (if left ctl then 1 else 0) - (if right ctl then 1 else (0::real));
            steering =
              (if (left ctl \<or> right ctl) \<and> speed > 2 / 10
               then [ApplyTorqueImpulse 0 (steer * steeringFactor cfg * speed) 0]
               else []);
            forwardSpeed = fx * vx + fy * 0 + fz * vz;
            damp = (if handbrake ctl then Fin (handbrakeDamping cfg)
                    else getDampingFactor cfg speed);
            lx = js_times (vx - fx * forwardSpeed) (js_neg damp);
            lz = js_times (vz - fz * forwardSpeed) (js_neg damp)
        in braking @ driving @ steering @ [ApplyImpulse lx (Fin 0) lz])"

text \<open>
  What the engine holds as the body's accumulated user force after a list of calls:
  \<^verbatim>\<open>addForce\<close> accumulates, \<^verbatim>\<open>resetForces\<close> clears. \<open>None\<close> stands for an accumulator
  that a non-finite component has poisoned.
\<close>

fun accumulated :: "vec3 option \<Rightarrow> body_call list \<Rightarrow> vec3 option" where
  "accumulated acc [] = acc"
| "accumulated acc (ResetForces # cs) = accumulated (Some (0, 0, 0)) cs"
| "accumulated acc (AddForce (Fin x) (Fin y) (Fin z) # cs) =
     accumulated (map_option (\<lambda>(a, b, c). (a + x, b + y, c + z)) acc) cs"
| "accumulated acc (AddForce _ _ _ # cs) = accumulated None cs"
| "accumulated acc (_ # cs) = accumulated acc cs"

section \<open>game.js and scene.js: the game state\<close>

record game =
  points :: int
  level :: int
  isOver :: bool
  isFalling :: bool
  physicsObjects :: "nat list"
  coins :: "nat list"
  obstacleBoxes :: "nat list"
  heap :: "nat \<Rightarrow> entity"
  nextId :: nat
  sceneChildren :: "nat list"
  worldBodies :: "(nat \<times> vec3) list"
  coinSpawnTimer :: "nat option"
  intervals :: "nat list"
  timeouts :: "nat list"
  restartKeyListener :: "nat option"
  keydownListeners :: "nat list"
  rand :: "nat \<Rightarrow> real"
  randIx :: nat
  carCalls :: "body_call list"
  tuning :: tunables

text \<open>
  \<^item> \<open>physicsObjects\<close>, \<open>coins\<close>, \<open>obstacleBoxes\<close>: the three arrays, holding references;
    \<open>heap\<close> maps a reference to the object, so that an object pushed on two arrays is
    one object. \<open>nextId\<close> supplies every new reference and every new handle (mesh,
    rigid body, collider, timer, listener).
  \<^item> \<open>sceneChildren\<close>: \<^verbatim>\<open>scene.children\<close>; \<open>worldBodies\<close>: the rigid bodies present in the
    physics world, each with the translation it was created at.
  \<^item> \<open>intervals\<close>: the interval timers that are active (each runs \<^verbatim>\<open>spawnCoin\<close>);
    \<open>timeouts\<close>: the pending zero-delay callbacks of \<^verbatim>\<open>collectCoin\<close>, each with the
    object it closes over; \<open>keydownListeners\<close>: the restart listeners registered on
    the window.
  \<^item> \<open>rand\<close>, \<open>randIx\<close>: the values \<^verbatim>\<open>Math.random()\<close> returns and how many are used up.
  \<^item> \<open>carCalls\<close>: the calls made on the car's rigid body so far; \<open>tuning\<close>: the
    tunables of \<^verbatim>\<open>CONFIG\<close>.
  Writes to the DOM, the debug visualisation (\<^verbatim>\<open>CONFIG.debug.physics.enabled\<close> is
  false), the camera and the renderer do not feed back into the game and are left out.
\<close>

text \<open>How a call ends: it returns, or it throws and leaves the state as it was then.\<close>

datatype result = Returned game | Threw js_error game

fun state_of :: "result \<Rightarrow> game" where
  "state_of (Returned s) = s"
| "state_of (Threw e s) = s"

fun returned :: "result \<Rightarrow> bool" where
  "returned (Returned s) = True"
| "returned (Threw e s) = False"

text \<open>
  \<^verbatim>\<open>scene.remove(m)\<close> splices the first occurrence out; \<^verbatim>\<open>scene.add(m)\<close> detaches \<open>m\<close>
  from its parent first, then appends it.
\<close>

definition scene_remove :: "nat \<Rightarrow> nat list \<Rightarrow> nat list" where
  "scene_remove m children = remove1 m children"

definition scene_add :: "nat \<Rightarrow> nat list \<Rightarrow> nat list" where
  "scene_add m children = scene_remove m children @ [m]"

definition clearInterval :: "nat option \<Rightarrow> game \<Rightarrow> game" where
  "clearInterval t s =
     (case t of None \<Rightarrow> s | Some i \<Rightarrow> s\<lparr>intervals := removeAll i (intervals s)\<rparr>)"

subsection \<open>gameOver and resetGame\<close>

definition gameOver :: "bool \<Rightarrow> game \<Rightarrow> game" where
  "gameOver falling s =
     (if isOver s then s
      else
        let s1 = clearInterval (coinSpawnTimer s) (s\<lparr>isOver := True, isFalling := falling\<rparr>);
            listener = nextId s1
        in s1\<lparr>nextId := listener + 1, restartKeyListener := Some listener,
               keydownListeners := keydownListeners s1 @ [listener]\<rparr>)"

definition resetGame :: "game \<Rightarrow> game" where
  "resetGame s =
     s\<lparr>points := 0, level := 1, isOver := False,
       physicsObjects := [], coins := [], obstacleBoxes := [], sceneChildren := []\<rparr>"

subsection \<open>scene.js: createObstacles\<close>

text \<open>
  \<^verbatim>\<open>createObstacles(RAPIER, world, scene, physicsObjects, obstacleBoxes, isLoading, level=1)\<close>.
  The arrays, the world and the scene are the game's own; the three parameters that
  callers fill differently are arguments here. The first statement,
  \<^verbatim>\<open>isLoading.obstacles = true\<close>, is an assignment to a property: in module code it throws
  a TypeError unless \<^verbatim>\<open>isLoading\<close> is an extensible object. A \<^verbatim>\<open>level\<close> that is \<^verbatim>\<open>undefined\<close> takes the
  default 1; \<^verbatim>\<open>count = level * boxIncreasePerLevel\<close> is NaN for an object, and then the
  loop body never runs.
\<close>

definition obstacle_count :: "jsval \<Rightarrow> nat" where
  "obstacle_count levelArg =
     (case levelArg of
        JUndefined \<Rightarrow> nat (1 * boxIncreasePerLevel)
      | JNumber n \<Rightarrow> nat (n * boxIncreasePerLevel)
      | JObject \<Rightarrow> 0
      | JFrozen \<Rightarrow> 0)"

text \<open>
  The \<^verbatim>\<open>for\<close> loop with \<open>n\<close> iterations to go. One iteration: a mesh, three calls of
  \<^verbatim>\<open>Math.random()\<close> (colour, x, z), \<^verbatim>\<open>scene.add\<close>, then \<^verbatim>\<open>RAPIER.RigidBodyDesc\<close> (a TypeError
  unless \<^verbatim>\<open>RAPIER\<close> is an object), a fixed body, a collider, and one object pushed on
  both \<^verbatim>\<open>physicsObjects\<close> and \<^verbatim>\<open>obstacleBoxes\<close>.
\<close>

fun createObstacles_loop :: "jsval \<Rightarrow> nat \<Rightarrow> game \<Rightarrow> result" where
  "createObstacles_loop rapier 0 s = Returned s"
| "createObstacles_loop rapier (Suc n) s =
     (let boxMesh = nextId s;
          posX = (rand s (randIx s + 1) - 1 / 2) * 100;
          posZ = (rand s (randIx s + 2) - 1 / 2) * 100;
          s1 = s\<lparr>nextId := nextId s + 1, randIx := randIx s + 3,
                 sceneChildren := scene_add boxMesh (sceneChildren s)\<rparr>
      in if \<not> can_read rapier then Threw TypeError s1
         else
           let boxBody = nextId s1; boxCollider = nextId s1 + 1; obs = nextId s1 + 2;
               s2 = s1\<lparr>nextId := nextId s1 + 3,
                       worldBodies := worldBodies s1 @ [(boxBody, (posX, 1 / 2, posZ))],
                       heap := (heap s1)(obs := \<lparr>etype = Some Obstacle, mesh = boxMesh,
                          body = boxBody, collider = Some boxCollider, sensor = None,
                          collected = None\<rparr>),
                       physicsObjects := physicsObjects s1 @ [obs],
                       obstacleBoxes := obstacleBoxes s1 @ [obs]\<rparr>
           in createObstacles_loop rapier n s2)"

definition createObstacles :: "jsval \<Rightarrow> jsval \<Rightarrow> jsval \<Rightarrow> game \<Rightarrow> result" where
  "createObstacles rapier isLoading levelArg s =
     (if \<not> can_set isLoading then Threw TypeError s
      else createObstacles_loop rapier (obstacle_count levelArg) s)"

subsection \<open>game.js: levelUp, collectCoin and its deferred callback\<close>

text \<open>
  \<^verbatim>\<open>levelUp\<close> calls \<^verbatim>\<open>createObstacles(RAPIER, world, scene, physicsObjects, obstacleBoxes, level)\<close>:
  six arguments, so the new level is what the sixth parameter \<^verbatim>\<open>isLoading\<close> receives,
  and the seventh, \<^verbatim>\<open>level\<close>, is \<^verbatim>\<open>undefined\<close>.
\<close>

definition levelUp :: "game \<Rightarrow> result" where
  "levelUp s =
     (let s1 = s\<lparr>level := level s + 1\<rparr>
      in createObstacles JFrozen (JNumber (level s1)) JUndefined s1)"

definition collectCoin :: "nat \<Rightarrow> game \<Rightarrow> result" where
  "collectCoin coin s =
     (let s1 = s\<lparr>heap := (heap s)(coin := (heap s coin)\<lparr>collected := Some True\<rparr>)\<rparr>;
          s2 = s1\<lparr>sceneChildren := scene_remove (mesh (heap s1 coin)) (sceneChildren s1)\<rparr>;
          s3 = s2\<lparr>points := points s2 + coins_value\<rparr>
      in case (if points s3 \<ge> level s3 * pointsToAdvance \<and> level s3 < maxLevel
               then levelUp s3 else Returned s3) of
           Threw e s4 \<Rightarrow> Threw e s4
         | Returned s4 \<Rightarrow> Returned (s4\<lparr>timeouts := timeouts s4 @ [coin]\<rparr>))"

text \<open>
  The arrow function that \<^verbatim>\<open>collectCoin\<close> hands to \<^verbatim>\<open>setTimeout(..., 0)\<close>:
  \<^verbatim>\<open>indexOf\<close> and \<^verbatim>\<open>splice(i, 1)\<close> on \<^verbatim>\<open>coins\<close> and on \<^verbatim>\<open>physicsObjects\<close>, then
  \<^verbatim>\<open>world.removeRigidBody(coin.body)\<close>.
\<close>

definition removeCollected :: "nat \<Rightarrow> game \<Rightarrow> game" where
  "removeCollected coin s =
     s\<lparr>coins := remove1 coin (coins s),
       physicsObjects := remove1 coin (physicsObjects s),
       worldBodies := filter (\<lambda>b. fst b \<noteq> body (heap s coin)) (worldBodies s)\<rparr>"

text \<open>The browser running the oldest pending zero-delay callback, between two frames.\<close>

definition runTimeout :: "game \<Rightarrow> game" where
  "runTimeout s =
     (case timeouts s of [] \<Rightarrow> s | c # cs \<Rightarrow> removeCollected c (s\<lparr>timeouts := cs\<rparr>))"

subsection \<open>game.js: the frame\<close>

text \<open>\<^verbatim>\<open>physicsObjects.find(o => o.collider && o.collider.handle === handle)\<close>\<close>

definition findByHandle :: "game \<Rightarrow> nat \<Rightarrow> nat option" where
  "findByHandle s h = find (\<lambda>r. collider (heap s r) = Some h) (physicsObjects s)"

text \<open>
  The callback given to \<^verbatim>\<open>drainCollisionEvents\<close>. Its statements in order: the two
  lookups; \<^verbatim>\<open>console.log\<close> of a template that reads \<^verbatim>\<open>obj1.type\<close> and \<^verbatim>\<open>obj2.type\<close> (a
  TypeError when either lookup found nothing); the guard \<^verbatim>\<open>if (!obj1 || !obj2) return\<close>;
  the dispatch on the types.
\<close>

definition collisionCallback :: "nat \<Rightarrow> nat \<Rightarrow> game \<Rightarrow> result" where
  "collisionCallback handle1 handle2 s =
     (case (findByHandle s handle1, findByHandle s handle2) of
        (Some obj1, Some obj2) \<Rightarrow>
          if etype (heap s obj1) = Some Car \<or> etype (heap s obj2) = Some Car then
            let otherObj = (if etype (heap s obj1) = Some Car then obj2 else obj1) in
            if etype (heap s otherObj) = Some Coin \<and> collected (heap s otherObj) \<noteq> Some True
              then collectCoin otherObj s
            else if etype (heap s otherObj) = Some Obstacle
              then Returned (gameOver False s)
            else Returned s
          else Returned s
      | _ \<Rightarrow> Threw TypeError s)"

text \<open>
  The engine calls the callback once for each drained pair. What the engine does
  when the callback throws is not part of this repository. The engine the game loads
  discards what the callback returns or throws and goes on with the next pair: that
  is \<open>rethrow = False\<close>. With \<open>rethrow = True\<close> the exception would end the drain and
  reach the caller; the parameter is there so that what is proved about frames can be
  seen not to depend on the engine's choice.
\<close>

fun drainCollisionEvents :: "bool \<Rightarrow> (nat \<times> nat) list \<Rightarrow> game \<Rightarrow> result" where
  "drainCollisionEvents rethrow [] s = Returned s"
| "drainCollisionEvents rethrow (p # ps) s =
     (case collisionCallback (fst p) (snd p) s of
        Returned s1 \<Rightarrow> drainCollisionEvents rethrow ps s1
      | Threw e s1 \<Rightarrow>
          if rethrow then Threw e s1 else drainCollisionEvents rethrow ps s1)"

text \<open>
  What the engine and the keyboard report in one frame: the car body's translation,
  linear velocity and heading after \<^verbatim>\<open>world.step\<close>, the state of the keys, and the
  collision pairs in the event queue.
\<close>

record frame =
  carPos :: vec3
  carVel :: vec3
  carFwd :: vec3
  keys :: controls
  pairs :: "(nat \<times> nat) list"

definition animate :: "bool \<Rightarrow> frame \<Rightarrow> game \<Rightarrow> result" where
  "animate rethrow f s =
     (if \<not> isOver s \<or> (isOver s \<and> isFalling s) then
        let s1 = s\<lparr>carCalls := carCalls s @
                     updateCarPhysics (tuning s) True (isOver s) (isFalling s) (level s)
                       (keys f) (carVel f) (carFwd f)\<rparr>;
            x = fst (carPos f); z = snd (snd (carPos f));
            half = groundSize / 2;
            s2 = (if \<bar>x\<bar> > half \<or> \<bar>z\<bar> > half then gameOver True s1 else s1)
        in drainCollisionEvents rethrow (pairs f) s2
      else Returned s)"

text \<open>
  What the browser runs, one task at a time: a frame, or the oldest pending
  zero-delay callback. \<^verbatim>\<open>animate\<close> asks for the next frame before anything else, so a
  frame that throws is followed by the next one all the same.
\<close>

datatype task = Frame frame | Timeout

fun run :: "bool \<Rightarrow> task list \<Rightarrow> game \<Rightarrow> game" where
  "run rethrow [] s = s"
| "run rethrow (Frame f # ts) s = run rethrow ts (state_of (animate rethrow f s))"
| "run rethrow (Timeout # ts) s = run rethrow ts (runTimeout s)"

subsection \<open>game.js: spawnCoin and startCoinSpawning\<close>

text \<open>
  The \<^verbatim>\<open>do ... while (dist < 10)\<close> loop of \<^verbatim>\<open>spawnCoin\<close>, reading \<^verbatim>\<open>Math.random()\<close> twice in
  each round. Nothing bounds the number of rounds, so the loop is a partial function:
  \<open>None\<close> is the loop that never ends. The result is the position and the number of
  random values used up.
\<close>

partial_function (option) sampleCoinPos :: "(nat \<Rightarrow> real) \<Rightarrow> nat \<Rightarrow> (real \<times> real \<times> nat) option" where
  "sampleCoinPos rnd i =
     (let posX = (rnd i - 1 / 2) * 80;
          posZ = (rnd (i + 1) - 1 / 2) * 80;
          dist = sqrt (posX * posX + posZ * posZ)
      in if dist < 10 then sampleCoinPos rnd (i + 2) else Some (posX, posZ, i + 2))"

definition spawnCoin :: "game \<Rightarrow> game option" where
  "spawnCoin s =
     (let coinLimit = coinBaseCount * level s in
      if isOver s \<or> int (length (coins s)) > coinLimit then Some s
      else
        case sampleCoinPos (rand s) (randIx s) of
          None \<Rightarrow> None
        | Some (posX, posZ, ix) \<Rightarrow>
            let coinMesh = nextId s; coinBody = nextId s + 1; solidCollider = nextId s + 2;
                sensorCollider = nextId s + 3; coinRecord = nextId s + 4;
                registered = nextId s + 5
            in Some (s\<lparr>nextId := nextId s + 6, randIx := ix,
                 sceneChildren := scene_add coinMesh (scene_add coinMesh (sceneChildren s)),
                 worldBodies := worldBodies s @ [(coinBody, (posX, 1 / 2, posZ))],
                 heap := (heap s)
                   (coinRecord := \<lparr>etype = None, mesh = coinMesh, body = coinBody,
                      collider = None, sensor = Some sensorCollider, collected = Some False\<rparr>,
                    registered := \<lparr>etype = Some Coin, mesh = coinMesh, body = coinBody,
                      collider = Some sensorCollider, sensor = None, collected = None\<rparr>),
                 coins := coins s @ [coinRecord],
                 physicsObjects := physicsObjects s @ [registered]\<rparr>))"

fun spawnCoins :: "nat \<Rightarrow> game \<Rightarrow> game option" where
  "spawnCoins 0 s = Some s"
| "spawnCoins (Suc n) s = (case spawnCoin s of None \<Rightarrow> None | Some s1 \<Rightarrow> spawnCoins n s1)"

text \<open>\<^verbatim>\<open>setInterval(spawnCoin, ...)\<close>, then five calls of \<^verbatim>\<open>spawnCoin\<close>.\<close>

definition startCoinSpawning :: "game \<Rightarrow> game option" where
  "startCoinSpawning s =
     (let timer = nextId s
      in spawnCoins 5 (s\<lparr>nextId := timer + 1, coinSpawnTimer := Some timer,
                          intervals := intervals s @ [timer]\<rparr>))"

subsection \<open>scene.js: createScene; game.js: restartGame\<close>

text \<open>
  \<^verbatim>\<open>createScene(world, scene, physicsObjects, carMesh, carBody, carCollider, level,
  obstacleBoxes, isLoading, RAPIER)\<close>: the two last parameters are arguments here.
  \<^verbatim>\<open>isLoading.level = true\<close> comes first, the ground mesh is added to the scene, and
  \<^verbatim>\<open>RAPIER.ColliderDesc\<close> is the first read of a property of \<^verbatim>\<open>RAPIER\<close>. Then: ground body
  and collider, the registry entry of the ground, the sky box, the car group, the car
  body and collider, the registry entry of the car, the obstacles, the boundary box
  and two lights.
\<close>

definition createScene :: "jsval \<Rightarrow> jsval \<Rightarrow> game \<Rightarrow> result" where
  "createScene isLoading rapier s =
     (if \<not> can_set isLoading then Threw TypeError s
      else
        let groundMesh = nextId s;
            s1 = s\<lparr>nextId := nextId s + 1,
                   sceneChildren := scene_add groundMesh (sceneChildren s)\<rparr>
        in if \<not> can_read rapier then Threw TypeError s1
           else
             let groundBody = nextId s1; groundCollider = nextId s1 + 1;
                 ground = nextId s1 + 2; skyMesh = nextId s1 + 3; carGroup = nextId s1 + 4;
                 carBody = nextId s1 + 5; carCollider = nextId s1 + 6; car = nextId s1 + 7;
                 s2 = s1\<lparr>nextId := nextId s1 + 8,
                         worldBodies := worldBodies s1 @
                            [(groundBody, (0, - (1 / 10), 0)), (carBody, (0, 1, 0))],
                         heap := (heap s1)
                           (ground := \<lparr>etype = Some Ground, mesh = groundMesh,
                              body = groundBody, collider = Some groundCollider,
                              sensor = None, collected = None\<rparr>,
                            car := \<lparr>etype = Some Car, mesh = carGroup, body = carBody,
                              collider = Some carCollider, sensor = None, collected = None\<rparr>),
                         physicsObjects := physicsObjects s1 @ [ground, car],
                         sceneChildren :=
                           scene_add carGroup (scene_add skyMesh (sceneChildren s1))\<rparr>
             in case createObstacles rapier isLoading (JNumber (level s2)) s2 of
                  Threw e s3 \<Rightarrow> Threw e s3
                | Returned s3 \<Rightarrow>
                    Returned (s3\<lparr>nextId := nextId s3 + 3,
                      sceneChildren :=
                        scene_add (nextId s3 + 2) (scene_add (nextId s3 + 1)
                          (scene_add (nextId s3) (sceneChildren s3)))\<rparr>))"

text \<open>
  \<^verbatim>\<open>restartGame\<close> calls \<^verbatim>\<open>createScene(world, scene, physicsObjects, carMesh, carBody,
  carCollider, level, obstacleBoxes, RAPIER)\<close>: nine arguments, so \<^verbatim>\<open>isLoading\<close> receives
  the engine's module export and the tenth parameter, \<^verbatim>\<open>RAPIER\<close>, is \<^verbatim>\<open>undefined\<close>.
  \<open>restartGame_reset\<close> is the part of \<^verbatim>\<open>restartGame\<close> before that call: the key listener
  removed, \<^verbatim>\<open>clearInterval(coinSpawnTimer)\<close>, \<^verbatim>\<open>resetGame()\<close>. The result is \<open>None\<close> when a
  \<^verbatim>\<open>spawnCoin\<close> loop never ends.
\<close>

definition restartGame_reset :: "game \<Rightarrow> game" where
  "restartGame_reset s =
     (let s1 = (case restartKeyListener s of
                  None \<Rightarrow> s
                | Some l \<Rightarrow> s\<lparr>keydownListeners := remove1 l (keydownListeners s),
                              restartKeyListener := None\<rparr>);
          s2 = clearInterval (coinSpawnTimer s1) s1
      in resetGame s2)"

definition restartGame :: "game \<Rightarrow> result option" where
  "restartGame s =
     (case createScene JFrozen JUndefined (restartGame_reset s) of
        Threw e s1 \<Rightarrow> Some (Threw e s1)
      | Returned s1 \<Rightarrow> map_option Returned (startCoinSpawning s1))"

section \<open>Projections, predicates and concrete states used in the theorems\<close>

text \<open>All force and impulse components of a call are finite numbers.\<close>

fun finite_call :: "body_call \<Rightarrow> bool" where
  "finite_call (AddForce x y z) = (finite_num x \<and> finite_num y \<and> finite_num z)"
| "finite_call (ApplyImpulse x y z) = (finite_num x \<and> finite_num y \<and> finite_num z)"
| "finite_call _ = True"

text \<open>
  The part of the state that a game-over transition writes: the two flags, the restart
  listeners and the interval timer.
\<close>

definition gate ::
  "game \<Rightarrow> bool \<times> bool \<times> nat list \<times> nat option \<times> nat list \<times> nat option" where
  "gate s = (isOver s, isFalling s, keydownListeners s, restartKeyListener s, intervals s,
             coinSpawnTimer s)"

text \<open>The three arrays and the bodies of the physics world.\<close>

definition registry ::
  "game \<Rightarrow> nat list \<times> nat list \<times> nat list \<times> (nat \<times> vec3) list" where
  "registry s = (physicsObjects s, coins s, obstacleBoxes s, worldBodies s)"

text \<open>The only interval timer that can be active is the one \<^verbatim>\<open>coinSpawnTimer\<close> holds.\<close>

definition timer_inv :: "game \<Rightarrow> bool" where
  "timer_inv s = (set (intervals s) \<subseteq> set_option (coinSpawnTimer s))"

text \<open>
  The round of the sampling loop that reads the random values \<open>i\<close> and \<open>i + 1\<close> picks
  a point that the loop accepts.
\<close>

definition far :: "(nat \<Rightarrow> real) \<Rightarrow> nat \<Rightarrow> bool" where
  "far rnd i =
     (\<not> sqrt (((rnd i - 1 / 2) * 80) * ((rnd i - 1 / 2) * 80)
              + ((rnd (i + 1) - 1 / 2) * 80) * ((rnd (i + 1) - 1 / 2) * 80)) < 10)"

text \<open>
  A game in play at level 1: the car (reference 0, collider 30), one obstacle
  (reference 1, collider 31), one coin (registry entry 2 with the sensor collider 32,
  record 3 in \<^verbatim>\<open>coins\<close>), the spawn timer 40 running.
\<close>

definition arena :: game where
  "arena = \<lparr> points = 0, level = 1, isOver = False, isFalling = False,
      physicsObjects = [0, 1, 2], coins = [3], obstacleBoxes = [1],
      heap = (\<lambda>r. \<lparr>etype = None, mesh = 0, body = 0, collider = None, sensor = None,
                    collected = None\<rparr>)
        (0 := \<lparr>etype = Some Car, mesh = 10, body = 20, collider = Some 30, sensor = None,
                collected = None\<rparr>,
         1 := \<lparr>etype = Some Obstacle, mesh = 11, body = 21, collider = Some 31,
                sensor = None, collected = None\<rparr>,
         2 := \<lparr>etype = Some Coin, mesh = 12, body = 22, collider = Some 32, sensor = None,
                collected = None\<rparr>,
         3 := \<lparr>etype = None, mesh = 12, body = 22, collider = None, sensor = Some 32,
                collected = Some False\<rparr>),
      nextId = 50, sceneChildren = [10, 11, 12],
      worldBodies = [(20, (0, 1, 0)), (21, (5, 1 / 2, 5)), (22, (20, 1 / 2, 0))],
      coinSpawnTimer = Some 40, intervals = [40], timeouts = [],
      restartKeyListener = None, keydownListeners = [],
      rand = (\<lambda>n. if n = 0 then 3 / 4 else 1 / 2), randIx = 0,
      carCalls = [], tuning = CONFIG \<rparr>"

definition handbrakeOnly :: controls where
  "handbrakeOnly =
     \<lparr>forward = False, reverse = False, left = False, right = False, handbrake = True\<rparr>"

text \<open>
  A frame with the car beyond the edge (\<open>x = 51\<close>), in which the engine reports the
  car touching the obstacle, the coin, and a collider that no entity owns.
\<close>

definition outside :: frame where
  "outside = \<lparr>carPos = (51, 0, 0), carVel = (3, 0, 4), carFwd = (0, 0, - 1),
      keys = handbrakeOnly, pairs = [(30, 31), (30, 32), (30, 99)]\<rparr>"

section \<open>The speed cap\<close>

text \<open>
  C6. For every level, \<^verbatim>\<open>getCarMaxSpeed(level)\<close> is the configured base speed times
  \<open>min (1 + (level - 1) * 0.25) 2\<close>; with a base speed that is not negative (25 as
  shipped, 0 to 50 on the tuning panel) it does not decrease when the level grows and
  never exceeds twice the base speed.
\<close>

theorem getCarMaxSpeed_monotone_capped:
  assumes "0 \<le> maxSpeed cfg" and "l \<le> l'"
  shows "getCarMaxSpeed cfg l = maxSpeed cfg * min (1 + (real_of_int l - 1) * (1 / 4)) 2
       \<and> getCarMaxSpeed cfg l \<le> getCarMaxSpeed cfg l'
       \<and> getCarMaxSpeed cfg l' \<le> 2 * maxSpeed cfg"
proof -
  have eq: "\<And>k. getCarMaxSpeed cfg k
      = maxSpeed cfg * min (1 + (real_of_int k - 1) * (1 / 4)) 2"
    by (simp add: getCarMaxSpeed_def Let_def)
  have m: "min (1 + (real_of_int l - 1) * (1 / 4)) 2
      \<le> min (1 + (real_of_int l' - 1) * (1 / 4)) (2::real)"
    using assms(2) by (simp add: min_def)
  have c: "min (1 + (real_of_int l' - 1) * (1 / 4)) 2 \<le> (2::real)" by simp
  show ?thesis
    using mult_left_mono[OF m assms(1)] mult_left_mono[OF c assms(1)]
    by (simp add: eq mult.commute)
qed

theorem getCarMaxSpeed_monotone_capped_witness:
  "0 \<le> maxSpeed CONFIG \<and> (1::int) \<le> 2 \<and> getCarMaxSpeed CONFIG 1 = 25
   \<and> getCarMaxSpeed CONFIG 1 \<le> getCarMaxSpeed CONFIG 2
   \<and> getCarMaxSpeed CONFIG 2 \<le> 2 * maxSpeed CONFIG"
  using getCarMaxSpeed_monotone_capped[of CONFIG 1 2] by (simp add: CONFIG_def)

section \<open>The force routine\<close>

lemma speed_zero_iff: "sqrt (vx * vx + vz * vz) = 0 \<longleftrightarrow> vx = 0 \<and> vz = 0"
  by simp

text \<open>
  With the handbrake on, every component handed to the body is finite exactly when
  the car moves horizontally; without the handbrake it is whenever the base speed is
  not tuned to zero.
\<close>

lemma updateCarPhysics_finite_iff:
  assumes "handbrake ctl" and "\<not> (over \<and> \<not> falling)"
  shows "list_all finite_call (updateCarPhysics cfg True over falling lvl ctl (vx, vy, vz) fwd)
           \<longleftrightarrow> vx \<noteq> 0 \<or> vz \<noteq> 0"
  using assms
  by (auto simp: updateCarPhysics_def Let_def js_div_def)

lemma updateCarPhysics_finite_without_handbrake:
  assumes "\<not> handbrake ctl" and "maxSpeed cfg \<noteq> 0"
  shows "list_all finite_call (updateCarPhysics cfg b over falling lvl ctl v fwd)"
  using assms by (simp add: updateCarPhysics_def getDampingFactor_def Let_def js_div_def)

text \<open>
  For a moving car the first call is \<^verbatim>\<open>addForce\<close> with \<open>- k * v\<close>, where \<open>k\<close> is
  \<open>0.2 * handbrakeDamping / speed\<close>; the velocity is zeroed exactly when the speed is
  below 0.2.
\<close>

lemma handbrake_force_opposes_velocity:
  assumes "handbrake ctl" and "\<not> (over \<and> \<not> falling)" and "vx \<noteq> 0 \<or> vz \<noteq> 0"
  shows "hd (updateCarPhysics cfg True over falling lvl ctl (vx, vy, vz) fwd)
     = AddForce (Fin (- (handbrakeDamping cfg * (2 / 10) / sqrt (vx * vx + vz * vz)) * vx))
                (Fin 0)
                (Fin (- (handbrakeDamping cfg * (2 / 10) / sqrt (vx * vx + vz * vz)) * vz))"
  using assms
  by (auto simp: updateCarPhysics_def Let_def js_div_def)

lemma handbrake_hard_zero:
  assumes "handbrake ctl" and "\<not> (over \<and> \<not> falling)"
  shows "SetLinvel 0 0 0 \<in> set (updateCarPhysics cfg True over falling lvl ctl (vx, vy, vz) fwd)
     \<longleftrightarrow> sqrt (vx * vx + vz * vz) < 2 / 10"
  using assms
  by (auto simp: updateCarPhysics_def Let_def)

text \<open>
  A frame without a drive force, which every handbrake frame is, calls
  \<^verbatim>\<open>resetForces\<close>; in a handbrake frame that call comes after the \<^verbatim>\<open>addForce\<close>, so the
  force accumulated on the body after the routine is zero.
\<close>

lemma no_drive_force_resets:
  assumes "\<not> (over \<and> \<not> falling)"
    and "handbrake ctl \<or> \<not> ((forward ctl \<or> reverse ctl)
            \<and> sqrt (vx * vx + 0 * 0 + vz * vz) < getCarMaxSpeed cfg lvl)"
  shows "ResetForces \<in> set (updateCarPhysics cfg True over falling lvl ctl (vx, vy, vz) fwd)"
  using assms
  by (auto simp: updateCarPhysics_def Let_def)

lemma handbrake_force_cleared:
  assumes "handbrake ctl" and "\<not> (over \<and> \<not> falling)" and "vx \<noteq> 0 \<or> vz \<noteq> 0"
  shows "accumulated acc (updateCarPhysics cfg True over falling lvl ctl (vx, vy, vz) fwd)
     = Some (0, 0, 0)"
  using assms
  by (auto simp: updateCarPhysics_def Let_def js_div_def)

lemma handbrake_moving_example:
  "updateCarPhysics CONFIG True False False 1 handbrakeOnly (3, 0, 4) (0, 0, - 1)
    = [AddForce (Fin (- (6 / 100))) (Fin 0) (Fin (- (8 / 100))), ResetForces,
       ApplyImpulse (Fin (- (3 / 2))) (Fin 0) (Fin 0)]"
  by (simp add: updateCarPhysics_def CONFIG_def handbrakeOnly_def Let_def js_div_def)

text \<open>
  C7. In a handbrake frame a damping force opposing the horizontal velocity is applied
  to the car body, the velocity is zeroed below a small speed, and a frame without a
  drive force clears the accumulated forces. The code, with the handbrake on and the
  car at rest: the speed is 0, both quotients are \<open>0/0\<close>, and what \<^verbatim>\<open>addForce\<close> receives is
  \<open>(NaN, 0, NaN)\<close>, not a force against the velocity.
\<close>

theorem handbrake_at_rest_calls:
  "updateCarPhysics CONFIG True False False 1 handbrakeOnly (0, 0, 0) (0, 0, - 1)
    = [AddForce NaN (Fin 0) NaN, SetLinvel 0 0 0, ResetForces,
       ApplyImpulse (Fin 0) (Fin 0) (Fin 0)]"
  by (simp add: updateCarPhysics_def CONFIG_def handbrakeOnly_def Let_def js_div_def)

theorem handbrake_at_rest_calls_witness:
  "hd (updateCarPhysics CONFIG True False False 1 handbrakeOnly (0, 0, 0) (0, 0, - 1))
     = AddForce NaN (Fin 0) NaN
   \<and> length (updateCarPhysics CONFIG True False False 1 handbrakeOnly (0, 0, 0) (0, 0, - 1)) = 4"
  using handbrake_at_rest_calls by simp

text \<open>
  C10. With the handbrake on, the force components passed to the body are finite, also
  for a car that does not move horizontally. The code, for a car that falls straight
  down with the handbrake and the left key pressed: the x and z components are NaN.
\<close>

theorem handbrake_force_not_finite:
  "updateCarPhysics CONFIG True False False 1 (handbrakeOnly\<lparr>left := True\<rparr>)
       (0, - 3, 0) (0, 0, - 1)
     = [AddForce NaN (Fin 0) NaN, SetLinvel 0 0 0, ResetForces,
       ApplyImpulse (Fin 0) (Fin 0) (Fin 0)]
   \<and> \<not> list_all finite_call
         (updateCarPhysics CONFIG True False False 1 (handbrakeOnly\<lparr>left := True\<rparr>)
            (0, - 3, 0) (0, 0, - 1))"
  by (simp add: updateCarPhysics_def CONFIG_def handbrakeOnly_def Let_def js_div_def)

theorem handbrake_force_not_finite_witness:
  "hd (updateCarPhysics CONFIG True False False 1 (handbrakeOnly\<lparr>left := True\<rparr>)
         (0, - 3, 0) (0, 0, - 1))
     = AddForce NaN (Fin 0) NaN
   \<and> \<not> finite_num NaN"
  using handbrake_force_not_finite by simp

section \<open>Level-up and obstacle spawning\<close>

text \<open>
  Called with all seven arguments, as \<^verbatim>\<open>createScene\<close> does, \<^verbatim>\<open>createObstacles\<close> appends
  \<open>level * boxIncreasePerLevel\<close> obstacles and leaves the earlier ones in place.
\<close>

lemma take_prefix_snoc:
  assumes "take (length (xs @ [x])) ys = xs @ [x]"
  shows "take (length xs) ys = xs"
proof -
  have "take (length xs) (take (length (xs @ [x])) ys) = take (length xs) (xs @ [x])"
    using assms by simp
  then show ?thesis by simp
qed

lemma createObstacles_loop_appends:
  "\<exists>s'. createObstacles_loop JFrozen n s = Returned s'
      \<and> length (obstacleBoxes s') = length (obstacleBoxes s) + n
      \<and> take (length (obstacleBoxes s)) (obstacleBoxes s') = obstacleBoxes s
      \<and> length (physicsObjects s') = length (physicsObjects s) + n
      \<and> take (length (physicsObjects s)) (physicsObjects s') = physicsObjects s
      \<and> take (length (worldBodies s)) (worldBodies s') = worldBodies s
      \<and> level s' = level s \<and> points s' = points s \<and> coins s' = coins s"
proof (induction n arbitrary: s)
  case 0
  then show ?case by simp
next
  case (Suc n)
  define s1 where "s1 = s\<lparr>nextId := nextId s + 1, randIx := randIx s + 3,
      sceneChildren := scene_add (nextId s) (sceneChildren s)\<rparr>"
  define s2 where "s2 = s1\<lparr>nextId := nextId s1 + 3,
      worldBodies := worldBodies s1 @
         [(nextId s1, ((rand s (randIx s + 1) - 1 / 2) * 100, 1 / 2,
                         (rand s (randIx s + 2) - 1 / 2) * 100))],
      heap := (heap s1)(nextId s1 + 2 := \<lparr>etype = Some Obstacle, mesh = nextId s,
          body = nextId s1, collider = Some (nextId s1 + 1), sensor = None,
          collected = None\<rparr>),
      physicsObjects := physicsObjects s1 @ [nextId s1 + 2],
      obstacleBoxes := obstacleBoxes s1 @ [nextId s1 + 2]\<rparr>"
  have step: "createObstacles_loop JFrozen (Suc n) s = createObstacles_loop JFrozen n s2"
    unfolding s2_def s1_def by (simp only: createObstacles_loop.simps Let_def) simp
  obtain s' where s': "createObstacles_loop JFrozen n s2 = Returned s'"
      "length (obstacleBoxes s') = length (obstacleBoxes s2) + n"
      "take (length (obstacleBoxes s2)) (obstacleBoxes s') = obstacleBoxes s2"
      "length (physicsObjects s') = length (physicsObjects s2) + n"
      "take (length (physicsObjects s2)) (physicsObjects s') = physicsObjects s2"
      "take (length (worldBodies s2)) (worldBodies s') = worldBodies s2"
      "level s' = level s2" "points s' = points s2" "coins s' = coins s2"
    using Suc.IH[of s2] by blast
  show ?case
    using s' step take_prefix_snoc[of "obstacleBoxes s" _ "obstacleBoxes s'"]
      take_prefix_snoc[of "physicsObjects s" _ "physicsObjects s'"]
      take_prefix_snoc[of "worldBodies s" _ "worldBodies s'"]
    by (simp add: s2_def s1_def)
qed

lemma createObstacles_seven_arguments:
  assumes "0 \<le> n"
  shows "\<exists>s'. createObstacles JFrozen JObject (JNumber n) s = Returned s'
      \<and> int (length (obstacleBoxes s'))
          = int (length (obstacleBoxes s)) + n * boxIncreasePerLevel
      \<and> take (length (obstacleBoxes s)) (obstacleBoxes s') = obstacleBoxes s"
proof -
  obtain s' where
      "createObstacles_loop JFrozen (nat (n * boxIncreasePerLevel)) s = Returned s'"
      "length (obstacleBoxes s') = length (obstacleBoxes s) + nat (n * boxIncreasePerLevel)"
      "take (length (obstacleBoxes s)) (obstacleBoxes s') = obstacleBoxes s"
    using createObstacles_loop_appends[of "nat (n * boxIncreasePerLevel)" s] by blast
  then show ?thesis using assms
    by (simp add: createObstacles_def obstacle_count_def boxIncreasePerLevel_def)
qed

text \<open>
  \<^verbatim>\<open>levelUp\<close> passes six arguments: the level arrives as \<^verbatim>\<open>isLoading\<close>, a number, and the
  first statement of \<^verbatim>\<open>createObstacles\<close> throws. The level has been incremented by then.
\<close>

lemma levelUp_throws: "levelUp s = Threw TypeError (s\<lparr>level := level s + 1\<rparr>)"
  by (simp add: levelUp_def createObstacles_def Let_def)

lemma collectCoin_unfold:
  "collectCoin coin s =
     (if points s + coins_value \<ge> level s * pointsToAdvance \<and> level s < maxLevel
      then Threw TypeError
             (s\<lparr>heap := (heap s)(coin := (heap s coin)\<lparr>collected := Some True\<rparr>),
                sceneChildren := scene_remove (mesh (heap s coin)) (sceneChildren s),
                points := points s + coins_value, level := level s + 1\<rparr>)
      else Returned
             (s\<lparr>heap := (heap s)(coin := (heap s coin)\<lparr>collected := Some True\<rparr>),
                sceneChildren := scene_remove (mesh (heap s coin)) (sceneChildren s),
                points := points s + coins_value, timeouts := timeouts s @ [coin]\<rparr>))"
  by (simp add: collectCoin_def levelUp_throws Let_def)

text \<open>
  C1. From a state with \<open>points = level * pointsToAdvance\<close> and \<open>level < maxLevel\<close>, the
  coin collection that crosses the threshold increments the level once and spawns
  \<open>newLevel * boxIncreasePerLevel\<close> more obstacles, the earlier ones untouched. The code,
  at level 1 with 100 points, and also with the 90 points from which play reaches the
  threshold: the level becomes 2, the call throws, and not one of the 20 obstacles is
  spawned.
\<close>

theorem levelUp_spawns_no_obstacles:
  "\<not> returned (collectCoin 2 (arena\<lparr>points := 100\<rparr>))
   \<and> level (state_of (collectCoin 2 (arena\<lparr>points := 100\<rparr>))) = 2
   \<and> obstacleBoxes (state_of (collectCoin 2 (arena\<lparr>points := 100\<rparr>))) = obstacleBoxes arena
   \<and> physicsObjects (state_of (collectCoin 2 (arena\<lparr>points := 100\<rparr>))) = physicsObjects arena
   \<and> worldBodies (state_of (collectCoin 2 (arena\<lparr>points := 100\<rparr>))) = worldBodies arena
   \<and> timeouts (state_of (collectCoin 2 (arena\<lparr>points := 100\<rparr>))) = []
   \<and> \<not> returned (collectCoin 2 (arena\<lparr>points := 90\<rparr>))
   \<and> level (state_of (collectCoin 2 (arena\<lparr>points := 90\<rparr>))) = 2
   \<and> obstacleBoxes (state_of (collectCoin 2 (arena\<lparr>points := 90\<rparr>))) = obstacleBoxes arena
   \<and> 2 * boxIncreasePerLevel = 20"
  by (simp add: collectCoin_unfold arena_def coins_value_def pointsToAdvance_def maxLevel_def
        boxIncreasePerLevel_def)

section \<open>Collecting a coin\<close>

text \<open>
  C2, as stated: \<^verbatim>\<open>collectCoin\<close> called again on a coin already marked collected does not
  add points a second time. \<^verbatim>\<open>collectCoin\<close> has no guard of its own: the second call
  adds the coin's value again.
\<close>

theorem collectCoin_twice_counts_twice:
  "collected (heap (state_of (collectCoin 2 arena)) 2) = Some True
   \<and> points (state_of (collectCoin 2 arena)) = 10
   \<and> points (state_of (collectCoin 2 (state_of (collectCoin 2 arena)))) = 20"
  by (simp add: collectCoin_unfold arena_def coins_value_def pointsToAdvance_def maxLevel_def)

lemma find_after_collect:
  "findByHandle (state_of (collectCoin c s)) h = findByHandle s h"
proof -
  have "(\<lambda>r. collider (((heap s)(c := (heap s c)\<lparr>collected := Some True\<rparr>)) r) = Some h)
      = (\<lambda>r. collider (heap s r) = Some h)"
    by (auto simp: fun_eq_iff)
  then show ?thesis by (simp add: findByHandle_def collectCoin_unfold)
qed

lemma etype_after_collect:
  "etype (heap (state_of (collectCoin c s)) r) = etype (heap s r)"
  by (simp add: collectCoin_unfold)

lemma collected_after_collect:
  "collected (heap (state_of (collectCoin c s)) c) = Some True"
  by (simp add: collectCoin_unfold)

text \<open>
  C2, amended. The guard is in the collision dispatch: a pair of the car and a coin
  whose collected flag is set leaves the whole state, points and level included, as
  it is; and once a car-coin pair has been handled, handling the same pair again
  changes nothing.
\<close>

theorem collision_dispatch_idempotent:
  assumes "findByHandle s h1 = Some car" and "findByHandle s h2 = Some coin"
    and "etype (heap s car) = Some Car" and "etype (heap s coin) = Some Coin"
  shows "(collected (heap s coin) = Some True \<longrightarrow>
            collisionCallback h1 h2 s = Returned s \<and> collisionCallback h2 h1 s = Returned s)
     \<and> collisionCallback h1 h2 (state_of (collisionCallback h1 h2 s))
           = Returned (state_of (collisionCallback h1 h2 s))"
proof -
  have n: "collected (heap s coin) = Some True \<Longrightarrow>
      collisionCallback h1 h2 s = Returned s \<and> collisionCallback h2 h1 s = Returned s"
    using assms by (simp add: collisionCallback_def Let_def)
  show ?thesis
  proof (cases "collected (heap s coin) = Some True")
    case True
    then show ?thesis using n by simp
  next
    case False
    then have c: "collisionCallback h1 h2 s = collectCoin coin s"
      using assms by (simp add: collisionCallback_def Let_def)
    let ?t = "state_of (collectCoin coin s)"
    have "collisionCallback h1 h2 ?t = Returned ?t"
      using assms
      by (simp add: collisionCallback_def Let_def find_after_collect etype_after_collect
            collected_after_collect)
    then show ?thesis using c False by simp
  qed
qed

theorem collision_dispatch_idempotent_witness:
  "findByHandle arena 30 = Some 0 \<and> findByHandle arena 32 = Some 2
    \<and> etype (heap arena 0) = Some Car \<and> etype (heap arena 2) = Some Coin
    \<and> points (state_of (collisionCallback 30 32 arena)) = 10
    \<and> collected (heap (state_of (collisionCallback 30 32 arena)) 2) = Some True
    \<and> collisionCallback 30 32 (state_of (collisionCallback 30 32 arena))
           = Returned (state_of (collisionCallback 30 32 arena))"
proof -
  have h1: "findByHandle arena 30 = Some 0" by (simp add: findByHandle_def arena_def)
  have h2: "findByHandle arena 32 = Some 2" by (simp add: findByHandle_def arena_def)
  have h3: "etype (heap arena 0) = Some Car" by (simp add: arena_def)
  have h4: "etype (heap arena 2) = Some Coin" by (simp add: arena_def)
  have p: "points (state_of (collisionCallback 30 32 arena)) = 10
      \<and> collected (heap (state_of (collisionCallback 30 32 arena)) 2) = Some True"
    by (simp add: collisionCallback_def findByHandle_def collectCoin_unfold arena_def
          coins_value_def pointsToAdvance_def maxLevel_def)
  show ?thesis using collision_dispatch_idempotent[OF h1 h2 h3 h4] h1 h2 h3 h4 p by simp
qed

section \<open>Game over at the boundary\<close>

lemma gate_collectCoin: "gate (state_of (collectCoin c s)) = gate s"
  by (simp add: collectCoin_unfold gate_def)

lemma gameOver_when_over: "isOver s \<Longrightarrow> gameOver b s = s"
  by (simp add: gameOver_def)

lemma gate_callback: "isOver s \<Longrightarrow> gate (state_of (collisionCallback h1 h2 s)) = gate s"
  by (simp add: collisionCallback_def gate_collectCoin gameOver_when_over Let_def
        split: option.splits)

lemma gate_drain: "isOver s \<Longrightarrow> gate (state_of (drainCollisionEvents r ps s)) = gate s"
proof (induction ps arbitrary: s)
  case Nil
  then show ?case by simp
next
  case (Cons p ps)
  let ?c = "collisionCallback (fst p) (snd p) s"
  have g: "gate (state_of ?c) = gate s" using Cons.prems by (rule gate_callback)
  then have o: "isOver (state_of ?c)" using Cons.prems by (simp add: gate_def)
  show ?case
  proof (cases ?c)
    case (Returned s1)
    then show ?thesis using Cons.IH[of s1] g o by simp
  next
    case (Threw e s1)
    then show ?thesis using Cons.IH[of s1] g o by (cases r) simp_all
  qed
qed

lemma gate_animate: "isOver s \<Longrightarrow> gate (state_of (animate r f s)) = gate s"
proof (cases "isFalling s")
  case False
  assume "isOver s"
  then show ?thesis using False by (simp add: animate_def)
next
  case True
  assume o: "isOver s"
  define s1 where "s1 = s\<lparr>carCalls := carCalls s @
     updateCarPhysics (tuning s) True (isOver s) (isFalling s) (level s)
       (keys f) (carVel f) (carFwd f)\<rparr>"
  have o1: "isOver s1" using o by (simp add: s1_def)
  have g1: "gate s1 = gate s" by (simp add: gate_def s1_def)
  have "animate r f s = drainCollisionEvents r (pairs f) s1"
    using o True gameOver_when_over[OF o1] unfolding animate_def Let_def s1_def[symmetric]
    by simp
  then show ?thesis using gate_drain[OF o1, of r "pairs f"] g1 by simp
qed

lemma gate_runTimeout: "gate (runTimeout s) = gate s"
  by (simp add: runTimeout_def removeCollected_def gate_def split: list.splits)

lemma gate_run: "isOver s \<Longrightarrow> gate (run r ts s) = gate s"
proof (induction ts arbitrary: s)
  case Nil
  then show ?case by simp
next
  case (Cons t ts)
  show ?case
  proof (cases t)
    case (Frame f)
    have g: "gate (state_of (animate r f s)) = gate s" using Cons.prems by (rule gate_animate)
    then have "isOver (state_of (animate r f s))" using Cons.prems by (simp add: gate_def)
    then show ?thesis using Cons.IH g Frame by simp
  next
    case Timeout
    have g: "gate (runTimeout s) = gate s" by (rule gate_runTimeout)
    then have "isOver (runTimeout s)" using Cons.prems by (simp add: gate_def)
    then show ?thesis using Cons.IH g Timeout by simp
  qed
qed

text \<open>
  C4. A frame of a game in play in which the car's \<open>|x|\<close> or \<open>|z|\<close> exceeds half the
  ground size ends with the game over and falling, whatever the collision pairs of
  that frame are and whether or not the frame throws; the transition registers one
  restart listener. Whatever frames and deferred callbacks follow, with the car
  outside or not, the flags, the listeners and the timers stay as that frame left
  them: the transition happens once.
\<close>

theorem boundary_game_over_once:
  assumes "\<not> isOver s"
    and "\<bar>fst (carPos f)\<bar> > groundSize / 2 \<or> \<bar>snd (snd (carPos f))\<bar> > groundSize / 2"
  shows "isOver (state_of (animate r f s)) \<and> isFalling (state_of (animate r f s))
     \<and> keydownListeners (state_of (animate r f s)) = keydownListeners s @ [nextId s]
     \<and> gate (run r ts (state_of (animate r f s))) = gate (state_of (animate r f s))"
proof -
  define s1 where "s1 = s\<lparr>carCalls := carCalls s @
     updateCarPhysics (tuning s) True (isOver s) (isFalling s) (level s)
       (keys f) (carVel f) (carFwd f)\<rparr>"
  define s2 where "s2 = gameOver True s1"
  have a: "animate r f s = drainCollisionEvents r (pairs f) s2"
    using assms unfolding animate_def Let_def s2_def s1_def by auto
  have v: "isOver s2 \<and> isFalling s2 \<and> keydownListeners s2 = keydownListeners s @ [nextId s]"
    using assms(1)
    by (simp add: s2_def s1_def gameOver_def Let_def clearInterval_def split: option.splits)
  then have o2: "isOver s2" by simp
  have g2: "gate (state_of (animate r f s)) = gate s2"
    using gate_drain[OF o2] a by simp
  have o3: "isOver (state_of (animate r f s))" using g2 v by (simp add: gate_def)
  show ?thesis using g2 v gate_run[OF o3, of r ts] by (simp add: gate_def)
qed

theorem boundary_game_over_once_witness:
  "\<not> isOver arena \<and> \<bar>fst (carPos outside)\<bar> > groundSize / 2
   \<and> isOver (state_of (animate True outside arena))
   \<and> isFalling (state_of (animate True outside arena))
   \<and> keydownListeners (state_of (animate True outside arena)) = [50]
   \<and> gate (run True [Frame outside, Timeout, Frame outside]
              (state_of (animate True outside arena)))
       = gate (state_of (animate True outside arena))"
proof -
  have h1: "\<not> isOver arena" by (simp add: arena_def)
  have h2: "\<bar>fst (carPos outside)\<bar> > groundSize / 2
      \<or> \<bar>snd (snd (carPos outside))\<bar> > groundSize / 2"
    by (simp add: outside_def groundSize_def)
  have h3: "\<bar>fst (carPos outside)\<bar> > groundSize / 2"
    by (simp add: outside_def groundSize_def)
  have k: "keydownListeners arena @ [nextId arena] = [50]" by (simp add: arena_def)
  show ?thesis
    using boundary_game_over_once[OF h1 h2, of True "[Frame outside, Timeout, Frame outside]"]
      h1 h3 k
    by simp
qed

section \<open>Deferred removal of a collected coin\<close>

lemma registry_collectCoin: "registry (state_of (collectCoin c s)) = registry s"
  by (simp add: collectCoin_unfold registry_def)

lemma registry_gameOver: "registry (gameOver b s) = registry s"
  by (simp add: gameOver_def registry_def clearInterval_def Let_def split: option.splits)

lemma registry_callback: "registry (state_of (collisionCallback h1 h2 s)) = registry s"
  by (simp add: collisionCallback_def registry_collectCoin registry_gameOver Let_def
        split: option.splits)

lemma registry_drain: "registry (state_of (drainCollisionEvents r ps s)) = registry s"
proof (induction ps arbitrary: s)
  case Nil
  then show ?case by simp
next
  case (Cons p ps)
  have g: "registry (state_of (collisionCallback (fst p) (snd p) s)) = registry s"
    by (rule registry_callback)
  show ?case
  proof (cases "collisionCallback (fst p) (snd p) s")
    case (Returned s1)
    then show ?thesis using Cons.IH[of s1] g by simp
  next
    case (Threw e s1)
    then show ?thesis using Cons.IH[of s1] g by (cases r) simp_all
  qed
qed

text \<open>
  C9. When \<^verbatim>\<open>collectCoin\<close> returns, the bodies of the physics world, the registry and the
  \<^verbatim>\<open>coins\<close> array are as before the call; only the mesh has left the scene and the
  collected flag is set, and one zero-delay callback for the coin is pending. No drain
  of collision pairs removes a body or an entry. The callback, when the browser runs
  it, takes the coin's body out of the world and its entry out of the registry.
\<close>

theorem collectCoin_defers_removal:
  assumes "collectCoin coin s = Returned s'"
  shows "worldBodies s' = worldBodies s \<and> physicsObjects s' = physicsObjects s
     \<and> coins s' = coins s
     \<and> collected (heap s' coin) = Some True
     \<and> sceneChildren s' = remove1 (mesh (heap s coin)) (sceneChildren s)
     \<and> timeouts s' = timeouts s @ [coin]
     \<and> set (worldBodies s') \<subseteq> set (worldBodies (state_of (drainCollisionEvents r ps s')))
     \<and> set (physicsObjects s')
          \<subseteq> set (physicsObjects (state_of (drainCollisionEvents r ps s')))
     \<and> set (coins s') \<subseteq> set (coins (state_of (drainCollisionEvents r ps s')))
     \<and> body (heap t coin) \<notin> fst ` set (worldBodies (removeCollected coin t))
     \<and> physicsObjects (removeCollected coin t) = remove1 coin (physicsObjects t)"
proof -
  have a: "worldBodies s' = worldBodies s \<and> physicsObjects s' = physicsObjects s
     \<and> coins s' = coins s \<and> collected (heap s' coin) = Some True
     \<and> sceneChildren s' = remove1 (mesh (heap s coin)) (sceneChildren s)
     \<and> timeouts s' = timeouts s @ [coin]"
    using assms by (auto simp: collectCoin_unfold scene_remove_def split: if_splits)
  have b: "registry (state_of (drainCollisionEvents r ps s')) = registry s'"
    by (rule registry_drain)
  have c: "body (heap t coin) \<notin> fst ` set (worldBodies (removeCollected coin t))
     \<and> physicsObjects (removeCollected coin t) = remove1 coin (physicsObjects t)"
    by (auto simp: removeCollected_def)
  show ?thesis using a b c by (simp add: registry_def)
qed

theorem collectCoin_defers_removal_witness:
  "collectCoin 2 arena = Returned (state_of (collectCoin 2 arena))
     \<and> (22, (20, 1 / 2, 0)) \<in> set (worldBodies (state_of (collectCoin 2 arena)))
     \<and> physicsObjects (state_of (collectCoin 2 arena)) = [0, 1, 2]
     \<and> timeouts (state_of (collectCoin 2 arena)) = [2]
     \<and> sceneChildren (state_of (collectCoin 2 arena)) = [10, 11]
     \<and> physicsObjects (runTimeout (state_of (collectCoin 2 arena))) = [0, 1]
     \<and> worldBodies (runTimeout (state_of (collectCoin 2 arena)))
          = [(20, (0, 1, 0)), (21, (5, 1 / 2, 5))]"
proof -
  have r: "collectCoin 2 arena = Returned (state_of (collectCoin 2 arena))"
    by (simp add: collectCoin_unfold arena_def coins_value_def pointsToAdvance_def maxLevel_def)
  have v: "worldBodies arena = [(20, (0, 1, 0)), (21, (5, 1 / 2, 5)), (22, (20, 1 / 2, 0))]
      \<and> physicsObjects arena = [0, 1, 2] \<and> timeouts arena = []
      \<and> remove1 (mesh (heap arena 2)) (sceneChildren arena) = [10, 11]
      \<and> body (heap arena 2) = 22"
    by (simp add: arena_def)
  have h: "heap (state_of (collectCoin 2 arena)) 2 = (heap arena 2)\<lparr>collected := Some True\<rparr>"
    by (simp add: collectCoin_unfold)
  show ?thesis
    using collectCoin_defers_removal[OF r, of True "[]" arena] r v h
    by (simp add: runTimeout_def removeCollected_def)
qed

section \<open>Restart\<close>

text \<open>
  \<^verbatim>\<open>restartGame\<close> passes nine arguments to \<^verbatim>\<open>createScene\<close>: \<^verbatim>\<open>isLoading\<close> is the engine's
  module export, and the call throws at its first statement, \<^verbatim>\<open>isLoading.level = true\<close>,
  after the reset and before anything of the new scene exists.
\<close>

lemma restartGame_unfold:
  "restartGame s = Some (Threw TypeError (restartGame_reset s))"
  by (simp add: restartGame_def createScene_def)

lemma restartGame_reset_fields:
  "points (restartGame_reset s) = 0 \<and> level (restartGame_reset s) = 1
   \<and> \<not> isOver (restartGame_reset s) \<and> isFalling (restartGame_reset s) = isFalling s
   \<and> physicsObjects (restartGame_reset s) = [] \<and> coins (restartGame_reset s) = []
   \<and> obstacleBoxes (restartGame_reset s) = [] \<and> sceneChildren (restartGame_reset s) = []
   \<and> restartKeyListener (restartGame_reset s) = None
   \<and> intervals (restartGame_reset s)
       = (case coinSpawnTimer s of None \<Rightarrow> intervals s | Some i \<Rightarrow> removeAll i (intervals s))"
  by (simp add: restartGame_reset_def resetGame_def clearInterval_def Let_def
        split: option.splits)

lemma timer_inv_cleared:
  "timer_inv s \<Longrightarrow>
     (case coinSpawnTimer s of None \<Rightarrow> intervals s | Some i \<Rightarrow> removeAll i (intervals s)) = []"
  by (cases "coinSpawnTimer s")
     (auto simp: timer_inv_def filter_empty_conv removeAll_filter_not_eq)

text \<open>
  The timer invariant holds in a state without timers, and the game-over transition,
  the collision callback, a drain, a frame and \<^verbatim>\<open>spawnCoin\<close> keep it.
\<close>

lemma timer_inv_gameOver: "timer_inv s \<Longrightarrow> timer_inv (gameOver b s)"
  by (cases "coinSpawnTimer s")
     (auto simp: timer_inv_def gameOver_def clearInterval_def Let_def)

lemma timer_inv_callback: "timer_inv s \<Longrightarrow> timer_inv (state_of (collisionCallback h1 h2 s))"
proof -
  assume i: "timer_inv s"
  have c: "\<And>c. timer_inv (state_of (collectCoin c s))"
    using i by (simp add: collectCoin_unfold timer_inv_def)
  show ?thesis
    using i c timer_inv_gameOver[OF i]
    by (simp add: collisionCallback_def Let_def split: option.splits)
qed

lemma timer_inv_drain: "timer_inv s \<Longrightarrow> timer_inv (state_of (drainCollisionEvents r ps s))"
proof (induction ps arbitrary: s)
  case Nil
  then show ?case by simp
next
  case (Cons p ps)
  have g: "timer_inv (state_of (collisionCallback (fst p) (snd p) s))"
    using Cons.prems by (rule timer_inv_callback)
  show ?case
  proof (cases "collisionCallback (fst p) (snd p) s")
    case (Returned s1)
    then show ?thesis using Cons.IH[of s1] g by simp
  next
    case (Threw e s1)
    then show ?thesis using Cons.IH[of s1] g by (cases r) simp_all
  qed
qed

lemma timer_inv_animate: "timer_inv s \<Longrightarrow> timer_inv (state_of (animate r f s))"
proof -
  assume i: "timer_inv s"
  define s1 where "s1 = s\<lparr>carCalls := carCalls s @
     updateCarPhysics (tuning s) True (isOver s) (isFalling s) (level s)
       (keys f) (carVel f) (carFwd f)\<rparr>"
  have i1: "timer_inv s1" using i by (simp add: timer_inv_def s1_def)
  have i2: "timer_inv (gameOver True s1)" using i1 by (rule timer_inv_gameOver)
  show ?thesis
    using i timer_inv_drain[OF i1, of r "pairs f"] timer_inv_drain[OF i2, of r "pairs f"]
    unfolding animate_def Let_def s1_def[symmetric] by simp
qed

lemma timer_inv_spawnCoin: "spawnCoin s = Some s' \<Longrightarrow> timer_inv s' = timer_inv s"
  by (auto simp: spawnCoin_def Let_def timer_inv_def split: if_splits option.splits)

text \<open>
  C5, as stated: after a restart \<open>isFalling\<close> is false. \<^verbatim>\<open>resetGame\<close> does not write
  \<^verbatim>\<open>CONFIG.game.isFalling\<close>: after the car has left the arena and the game is restarted,
  the flag is still true.
\<close>

theorem restart_keeps_isFalling:
  "isFalling (state_of (the (restartGame (gameOver True arena))))
    \<and> restartGame (gameOver True arena) \<noteq> None"
  by (simp add: restartGame_unfold restartGame_reset_fields gameOver_def arena_def
        clearInterval_def Let_def)

text \<open>
  C5, amended. In a state where no interval timer other than \<^verbatim>\<open>coinSpawnTimer\<close> is
  active: when \<^verbatim>\<open>createScene\<close> is called, the registry, the coins and the obstacles are
  empty and no interval timer is active; \<^verbatim>\<open>restartGame\<close> ends, and then \<open>points = 0\<close>,
  \<open>level = 1\<close>, \<open>isOver\<close> is false and no timer from before the restart is active.
  \<open>isFalling\<close> keeps the value it had.
\<close>

theorem restartGame_resets:
  assumes "timer_inv s"
  shows "physicsObjects (restartGame_reset s) = [] \<and> coins (restartGame_reset s) = []
     \<and> obstacleBoxes (restartGame_reset s) = []
     \<and> intervals (restartGame_reset s) = []
     \<and> (case restartGame s of
           None \<Rightarrow> False
         | Some r \<Rightarrow> points (state_of r) = 0 \<and> level (state_of r) = 1
              \<and> \<not> isOver (state_of r) \<and> isFalling (state_of r) = isFalling s
              \<and> set (intervals (state_of r)) \<inter> set (intervals s) = {})"
  using restartGame_reset_fields[of s] timer_inv_cleared[OF assms]
  by (simp add: restartGame_unfold)

theorem restartGame_resets_witness:
  "timer_inv (gameOver True arena)
    \<and> intervals (restartGame_reset (gameOver True arena)) = []
    \<and> coins (restartGame_reset (gameOver True arena)) = []
    \<and> (case restartGame (gameOver True arena) of None \<Rightarrow> False
        | Some r \<Rightarrow> points (state_of r) = 0 \<and> level (state_of r) = 1
              \<and> \<not> isOver (state_of r)
              \<and> isFalling (state_of r) = isFalling (gameOver True arena)
              \<and> set (intervals (state_of r)) \<inter> set (intervals (gameOver True arena)) = {})"
proof -
  have h: "timer_inv (gameOver True arena)"
    by (simp add: timer_inv_def gameOver_def arena_def clearInterval_def Let_def)
  show ?thesis using restartGame_resets[OF h] h by simp
qed

section \<open>Spawning a coin\<close>

text \<open>What the sampling loop returns lies in the square and outside the inner circle.\<close>

lemma sampleCoinPos_sound:
  assumes "sampleCoinPos rnd i = Some r"
  shows "(\<forall>n. 0 \<le> rnd n \<and> rnd n < 1) \<longrightarrow>
       \<bar>fst r\<bar> \<le> 40 \<and> \<bar>fst (snd r)\<bar> \<le> 40
       \<and> 10 \<le> sqrt (fst r * fst r + fst (snd r) * fst (snd r))"
  using assms
proof (induct rnd i r rule: sampleCoinPos.raw_induct)
  case (1 f rnd i r)
  show ?case
  proof
    assume rng: "\<forall>n. 0 \<le> rnd n \<and> rnd n < 1"
    define posX where "posX = (rnd i - 1 / 2) * 80"
    define posZ where "posZ = (rnd (i + 1) - 1 / 2) * 80"
    have eq: "(if sqrt (posX * posX + posZ * posZ) < 10 then f rnd (i + 2)
               else Some (posX, posZ, i + 2)) = Some r"
      using "1.hyps"(2) unfolding Let_def posX_def posZ_def by blast
    show "\<bar>fst r\<bar> \<le> 40 \<and> \<bar>fst (snd r)\<bar> \<le> 40
       \<and> 10 \<le> sqrt (fst r * fst r + fst (snd r) * fst (snd r))"
    proof (cases "sqrt (posX * posX + posZ * posZ) < 10")
      case True
      then have a: "f rnd (i + 2) = Some r" using eq by simp
      have "sampleCoinPos rnd i = sampleCoinPos rnd (i + 2)"
        using True unfolding posX_def posZ_def
        by (subst sampleCoinPos.simps) (simp only: Let_def if_True)
      then have b: "sampleCoinPos rnd (i + 2) = Some r" using "1.prems" by simp
      show ?thesis using "1.hyps"(1)[OF a b] rng by blast
    next
      case False
      then have r: "r = (posX, posZ, i + 2)" using eq by simp
      have "0 \<le> rnd i \<and> rnd i < 1" "0 \<le> rnd (i + 1) \<and> rnd (i + 1) < 1"
        using rng by blast+
      then have "\<bar>posX\<bar> \<le> 40" "\<bar>posZ\<bar> \<le> 40"
        by (simp_all add: posX_def posZ_def abs_le_iff)
      then show ?thesis using False r by simp
    qed
  qed
qed (rule assms)

text \<open>The loop ends as soon as some round picks an acceptable point.\<close>

lemma sampleCoinPos_terminates:
  "far rnd (i + 2 * k) \<Longrightarrow> sampleCoinPos rnd i \<noteq> None"
proof (induction k arbitrary: i)
  case 0
  then show ?case by (subst sampleCoinPos.simps) (simp add: far_def Let_def)
next
  case (Suc k)
  have "far rnd ((i + 2) + 2 * k)" using Suc.prems by (simp add: add.commute add.left_commute)
  then have "sampleCoinPos rnd (i + 2) \<noteq> None" by (rule Suc.IH)
  then show ?case by (subst sampleCoinPos.simps) (simp add: Let_def)
qed

lemma sqrt_less_10: "sqrt a < 10 \<longleftrightarrow> a < 100"
proof -
  have "sqrt 100 = 10" using real_sqrt_abs2[of 10] by simp
  then show ?thesis using real_sqrt_less_iff[of a 100] by simp
qed

lemma spawnCoin_position:
  assumes rng: "\<forall>n. 0 \<le> rand s n \<and> rand s n < 1"
    and g: "\<not> isOver s" "\<not> int (length (coins s)) > coinBaseCount * level s"
    and sp: "spawnCoin s = Some s'"
  shows "\<exists>x z. worldBodies s' = worldBodies s @ [(nextId s + 1, (x, 1 / 2, z))]
           \<and> \<bar>x\<bar> \<le> 40 \<and> \<bar>z\<bar> \<le> 40 \<and> 10 \<le> sqrt (x * x + z * z)"
proof -
  obtain x z j where sm: "sampleCoinPos (rand s) (randIx s) = Some (x, z, j)"
    using sp g by (auto simp: spawnCoin_def Let_def split: option.splits)
  have b: "\<bar>x\<bar> \<le> 40 \<and> \<bar>z\<bar> \<le> 40 \<and> 10 \<le> sqrt (x * x + z * z)"
    using sampleCoinPos_sound[OF sm] rng by simp
  have "worldBodies s' = worldBodies s @ [(nextId s + 1, (x, 1 / 2, z))]"
    using sp g sm by (auto simp: spawnCoin_def Let_def)
  then show ?thesis using b by blast
qed

text \<open>
  C8. With \<^verbatim>\<open>Math.random()\<close> in \<open>[0, 1)\<close>: \<^verbatim>\<open>spawnCoin\<close> returns the state unchanged when
  the game is over or the number of coins exceeds \<open>coinBaseCount * level\<close>. Otherwise,
  when it returns, it has added one body at \<open>(x, 0.5, z)\<close> with \<open>|x| \<le> 40\<close>, \<open>|z| \<le> 40\<close>
  and distance at least 10 from the centre, one record on \<^verbatim>\<open>coins\<close> and one registry
  entry, both with that body; and it does return as soon as some round of the sampling
  loop picks a point that far out.
\<close>

theorem spawnCoin_guard_and_position:
  assumes "\<forall>n. 0 \<le> rand s n \<and> rand s n < 1"
  shows "(isOver s \<or> int (length (coins s)) > coinBaseCount * level s \<longrightarrow> spawnCoin s = Some s)
     \<and> (\<not> isOver s \<and> \<not> int (length (coins s)) > coinBaseCount * level s
          \<and> spawnCoin s = Some s' \<longrightarrow>
          (\<exists>x z. worldBodies s' = worldBodies s @ [(nextId s + 1, (x, 1 / 2, z))]
             \<and> \<bar>x\<bar> \<le> 40 \<and> \<bar>z\<bar> \<le> 40 \<and> 10 \<le> sqrt (x * x + z * z))
          \<and> coins s' = coins s @ [nextId s + 4]
          \<and> physicsObjects s' = physicsObjects s @ [nextId s + 5]
          \<and> body (heap s' (nextId s + 4)) = nextId s + 1
          \<and> body (heap s' (nextId s + 5)) = nextId s + 1)
     \<and> (far (rand s) (randIx s + 2 * k) \<longrightarrow> spawnCoin s \<noteq> None)"
proof -
  have a: "isOver s \<or> int (length (coins s)) > coinBaseCount * level s \<longrightarrow> spawnCoin s = Some s"
    by (simp add: spawnCoin_def Let_def)
  have b: "\<not> isOver s \<and> \<not> int (length (coins s)) > coinBaseCount * level s
          \<and> spawnCoin s = Some s' \<longrightarrow>
          (\<exists>x z. worldBodies s' = worldBodies s @ [(nextId s + 1, (x, 1 / 2, z))]
             \<and> \<bar>x\<bar> \<le> 40 \<and> \<bar>z\<bar> \<le> 40 \<and> 10 \<le> sqrt (x * x + z * z))"
    using spawnCoin_position[OF assms] by blast
  have c: "\<not> isOver s \<and> \<not> int (length (coins s)) > coinBaseCount * level s
          \<and> spawnCoin s = Some s' \<longrightarrow>
          coins s' = coins s @ [nextId s + 4]
          \<and> physicsObjects s' = physicsObjects s @ [nextId s + 5]
          \<and> body (heap s' (nextId s + 4)) = nextId s + 1
          \<and> body (heap s' (nextId s + 5)) = nextId s + 1"
    by (auto simp: spawnCoin_def Let_def split: option.splits)
  have d: "far (rand s) (randIx s + 2 * k) \<longrightarrow> spawnCoin s \<noteq> None"
    using sampleCoinPos_terminates[of "rand s" "randIx s" k]
    by (auto simp: spawnCoin_def Let_def split: option.splits)
  show ?thesis using a b c d by blast
qed

lemma sample_arena: "sampleCoinPos (rand arena) (randIx arena) = Some (20, 0, 2)"
  by (subst sampleCoinPos.simps) (simp add: arena_def Let_def sqrt_less_10)

theorem spawnCoin_guard_and_position_witness:
  "(\<forall>n. 0 \<le> rand arena n \<and> rand arena n < 1)
    \<and> spawnCoin (arena\<lparr>isOver := True\<rparr>) = Some (arena\<lparr>isOver := True\<rparr>)
    \<and> \<not> isOver arena \<and> \<not> int (length (coins arena)) > coinBaseCount * level arena
    \<and> far (rand arena) (randIx arena + 2 * 0)
    \<and> spawnCoin arena \<noteq> None
    \<and> worldBodies (the (spawnCoin arena)) = worldBodies arena @ [(51, (20, 1 / 2, 0))]
    \<and> (\<exists>x z. worldBodies (the (spawnCoin arena))
                 = worldBodies arena @ [(nextId arena + 1, (x, 1 / 2, z))]
             \<and> \<bar>x\<bar> \<le> 40 \<and> \<bar>z\<bar> \<le> 40 \<and> 10 \<le> sqrt (x * x + z * z))"
proof -
  have r: "\<forall>n. 0 \<le> rand arena n \<and> rand arena n < 1" by (simp add: arena_def)
  have r': "\<forall>n. 0 \<le> rand (arena\<lparr>isOver := True\<rparr>) n \<and> rand (arena\<lparr>isOver := True\<rparr>) n < 1"
    using r by simp
  have g: "\<not> isOver arena \<and> \<not> int (length (coins arena)) > coinBaseCount * level arena"
    by (simp add: arena_def coinBaseCount_def)
  have f: "far (rand arena) (randIx arena + 2 * 0)"
    by (simp add: far_def arena_def sqrt_less_10)
  have n: "spawnCoin arena \<noteq> None"
    using spawnCoin_guard_and_position[OF r, of "the (spawnCoin arena)" 0] f by simp
  then have e: "spawnCoin arena = Some (the (spawnCoin arena))" by simp
  have w: "worldBodies (the (spawnCoin arena)) = worldBodies arena @ [(51, (20, 1 / 2, 0))]"
    using g sample_arena by (simp add: spawnCoin_def Let_def) (simp add: arena_def)
  show ?thesis
    using spawnCoin_guard_and_position[OF r, of "the (spawnCoin arena)" 0]
      spawnCoin_guard_and_position[OF r', of "arena\<lparr>isOver := True\<rparr>" 0]
      r g f n e w
    by simp
qed

section \<open>Collision pairs with a handle that no entity owns\<close>







end
